theory Spec2Isabelle
  imports Main "HOL-Library.Char_ord" "HOL-Library.List_Lexorder" "HOL-Library.Sublist"
begin

section \<open>Python values used by the driver\<close>

text \<open>
  The exceptions the modelled code can raise. A function that can raise returns
  \<open>error + 'a\<close>, with \<open>Inl\<close> for the exception.
\<close>

datatype error =
    IndexError
  | KeyError
  | ValueError
  | AssertionError
  | AttributeError
  | OSError
  | TypeError
  | SubprocessError

text \<open>\<open>xs[i]\<close> for a non-negative literal index: IndexError out of range.\<close>

definition py_index :: "'a list \<Rightarrow> nat \<Rightarrow> error + 'a" where
  "py_index xs i = (if i < length xs then Inr (xs ! i) else Inl IndexError)"

text \<open>
  \<open>str.isspace\<close> on the ASCII range: tab, line feed, vertical tab, form feed,
  carriage return, the four separators 0x1C..0x1F and the space. Characters are
  bytes here, so the non-ASCII white space of Unicode is not covered.
\<close>

definition is_space :: "char \<Rightarrow> bool" where
  "is_space c = (c \<in> set [CHR 0x09, CHR 0x0A, CHR 0x0B, CHR 0x0C, CHR 0x0D,
                           CHR 0x1C, CHR 0x1D, CHR 0x1E, CHR 0x1F, CHR 0x20])"

text \<open>\<open>s.strip()\<close>\<close>

definition strip :: "string \<Rightarrow> string" where
  "strip s = rev (dropWhile is_space (rev (dropWhile is_space s)))"

text \<open>\<open>s.split(sep)\<close> for a separator of one character: never the empty list.\<close>

fun split_on :: "char \<Rightarrow> string \<Rightarrow> string list" where
  "split_on sep [] = [[]]"
| "split_on sep (c # cs) =
     (if c = sep then [] # split_on sep cs
      else (case split_on sep cs of
              [] \<Rightarrow> [[c]]
            | w # ws \<Rightarrow> (c # w) # ws))"

text \<open>\<open>s.split(sep, 1)\<close>: split at the first separator only.\<close>

definition split_once :: "char \<Rightarrow> string \<Rightarrow> string list" where
  "split_once sep s =
     (if sep \<in> set s
      then [takeWhile (\<lambda>c. c \<noteq> sep) s, tl (dropWhile (\<lambda>c. c \<noteq> sep) s)]
      else [s])"

text \<open>\<open>a in b\<close> on strings: \<open>a\<close> occurs in \<open>b\<close> as a contiguous piece.\<close>

fun py_in :: "string \<Rightarrow> string \<Rightarrow> bool" where
  "py_in a [] = (a = [])"
| "py_in a (c # cs) = (prefix a (c # cs) \<or> py_in a cs)"

text \<open>\<open>sep.join(xs)\<close>\<close>

fun join :: "string \<Rightarrow> string list \<Rightarrow> string" where
  "join sep [] = []"
| "join sep [x] = x"
| "join sep (x # y # ys) = x @ sep @ join sep (y # ys)"

section \<open>Job states (slurm\_interface.py, class SLURMJobState)\<close>

datatype SLURMJobState =
    BOOT_FAIL
  | CANCELLED
  | COMPLETED
  | DEADLINE
  | FAILED
  | NODE_FAIL
  | OUT_OF_MEMORY
  | PENDING
  | PREEMPTED
  | RUNNING
  | REQUEUED
  | RESIZING
  | REVOKED
  | SUSPENDED
  | TIMEOUT

text \<open>
  The dictionary of \<open>_get_equivalent_states\<close>, as the list of its items in insertion
  order (the order \<open>dict.items()\<close> iterates in).
\<close>

definition get_equivalent_states :: "(string \<times> SLURMJobState) list" where
  "get_equivalent_states =
    [(''BOOT_FAIL'', BOOT_FAIL),
     (''BF'', BOOT_FAIL),
     (''CANCELLED'', CANCELLED),
     (''CA'', CANCELLED),
     (''COMPLETED'', COMPLETED),
     (''CD'', COMPLETED),
     (''DEADLINE'', DEADLINE),
     (''DL'', DEADLINE),
     (''FAILED'', FAILED),
     (''F'', FAILED),
     (''NODE_FAIL'', NODE_FAIL),
     (''NF'', NODE_FAIL),
     (''OUT_OF_MEMORY'', OUT_OF_MEMORY),
     (''OOM'', OUT_OF_MEMORY),
     (''PENDING'', PENDING),
     (''PD'', PENDING),
     (''PREEMPTED'', PREEMPTED),
     (''PR'', PREEMPTED),
     (''RUNNING'', RUNNING),
     (''R'', RUNNING),
     (''REQUEUED'', REQUEUED),
     (''RQ'', REQUEUED),
     (''RESIZING'', RESIZING),
     (''RS'', RESIZING),
     (''REVOKED'', REVOKED),
     (''RV'', REVOKED),
     (''SUSPENDED'', SUSPENDED),
     (''S'', SUSPENDED),
     (''TIMEOUT'', TIMEOUT),
     (''TO'', TIMEOUT)]"

text \<open>\<open>d.get(key, None)\<close> on the items of a dictionary.\<close>

definition dict_get :: "('k \<times> 'v) list \<Rightarrow> 'k \<Rightarrow> 'v option" where
  "dict_get items k = map_of items k"

definition from_string :: "string \<Rightarrow> SLURMJobState option" where
  "from_string state = dict_get get_equivalent_states state"

text \<open>The loop of \<open>to_string\<close>: the first key whose value is the state, else ValueError.\<close>

fun to_string_loop :: "(string \<times> SLURMJobState) list \<Rightarrow> SLURMJobState \<Rightarrow> error + string" where
  "to_string_loop [] self = Inl ValueError"
| "to_string_loop ((k, v) # items) self =
     (if v = self then Inr k else to_string_loop items self)"

definition to_string :: "SLURMJobState \<Rightarrow> error + string" where
  "to_string self = to_string_loop get_equivalent_states self"

section \<open>Allocation requests (slurm\_interface.py, class SLURMJobRequestData)\<close>

text \<open>
  The fields of the constructor, in its order. A parameter whose default is \<open>None\<close>
  is an optional string; \<open>exclusive\<close> and \<open>contiguous\<close> are booleans. The fields
  \<open>partition\<close> and \<open>power\<close> carry a suffix, since HOL has constants of these names.
\<close>

record SLURMJobRequestData =
  job_name :: string
  nodes :: "string option"
  mem :: "string option"
  mem_bind :: "string option"
  mem_per_cpu :: "string option"
  cpus_per_task :: "string option"
  n_tasks :: "string option"
  time_limit :: "string option"
  time_min :: "string option"
  exclusive :: bool
  network :: "string option"
  contiguous :: bool
  partition_fld :: "string option"
  power_fld :: "string option"
  priority :: "string option"
  nice :: "string option"
  comment :: "string option"
  chdir :: "string option"
  export :: "string option"
  stdout_file :: "string option"
  stderr_file :: "string option"

definition dquote :: char where
  "dquote = CHR 0x22"

definition newline :: char where
  "newline = CHR 0x0A"

text \<open>
  \<open>get_cli_parameters\<close>: the list \<open>parameters\<close> holds one entry per field, \<open>None\<close>
  for a field that is not rendered; the result keeps the entries that are not \<open>None\<close>.
\<close>

definition get_cli_parameters :: "SLURMJobRequestData \<Rightarrow> string list" where
  "get_cli_parameters self =
    (let parameters =
      [Some (''--job-name='' @ job_name self),
       (case nodes self of Some v \<Rightarrow> Some (''--nodes='' @ v) | None \<Rightarrow> None),
       (case mem self of Some v \<Rightarrow> Some (''--mem='' @ v) | None \<Rightarrow> None),
       (case mem_bind self of Some v \<Rightarrow> Some (''--mem-bind='' @ v) | None \<Rightarrow> None),
       (case mem_per_cpu self of Some v \<Rightarrow> Some (''--mem-per-cpu='' @ v) | None \<Rightarrow> None),
       (case cpus_per_task self of Some v \<Rightarrow> Some (''--cpus-per-task='' @ v) | None \<Rightarrow> None),
       (case n_tasks self of Some v \<Rightarrow> Some (''--ntasks='' @ v) | None \<Rightarrow> None),
       (case time_limit self of Some v \<Rightarrow> Some (''--time='' @ v) | None \<Rightarrow> None),
       (case time_min self of Some v \<Rightarrow> Some (''--time-min='' @ v) | None \<Rightarrow> None),
       (if exclusive self then Some ''--exclusive'' else None),
       (case network self of Some v \<Rightarrow> Some (''--network='' @ v) | None \<Rightarrow> None),
       (if contiguous self then Some ''--contiguous'' else None),
       (case partition_fld self of Some v \<Rightarrow> Some (''--partition='' @ v) | None \<Rightarrow> None),
       (case power_fld self of Some v \<Rightarrow> Some (''--power='' @ v) | None \<Rightarrow> None),
       (case priority self of Some v \<Rightarrow> Some (''--priority='' @ v) | None \<Rightarrow> None),
       (case nice self of Some v \<Rightarrow> Some (''--nice='' @ v) | None \<Rightarrow> None),
       (case comment self of
          Some v \<Rightarrow> Some (''--comment='' @ [dquote] @ v @ [dquote])
        | None \<Rightarrow> None),
       (case chdir self of Some v \<Rightarrow> Some (''--chdir='' @ v) | None \<Rightarrow> None),
       (case export self of Some v \<Rightarrow> Some (''--export='' @ v) | None \<Rightarrow> None),
       (case stdout_file self of Some v \<Rightarrow> Some (''--output='' @ v) | None \<Rightarrow> None),
       (case stderr_file self of Some v \<Rightarrow> Some (''--error='' @ v) | None \<Rightarrow> None)]
     in map the (filter (\<lambda>x. x \<noteq> None) parameters))"

text \<open>\<open>to_sbatch_file_string\<close>; the \<open>assert\<close> is the AssertionError branch.\<close>

definition to_sbatch_file_string :: "SLURMJobRequestData \<Rightarrow> string list \<Rightarrow> error + string" where
  "to_sbatch_file_string self script_lines =
    (if \<not> length script_lines > 0 then Inl AssertionError
     else
       (let lines = [''#!/bin/bash'', ''''];
            lines = lines @ map (\<lambda>x. ''#SBATCH '' @ x) (get_cli_parameters self);
            lines = lines @ [''''];
            lines = lines @ script_lines
        in Inr (join [newline] lines)))"

subsection \<open>The artifact as the specification describes it\<close>

text \<open>
  The directive of one field, following the specification's words: a valued field
  that is present gives \<open><flag>=<value>\<close>, a boolean field that is set gives the bare
  flag, and an absent field gives nothing.
\<close>

definition valued_directive :: "string \<Rightarrow> string option \<Rightarrow> string list" where
  "valued_directive flag field =
     (case field of None \<Rightarrow> [] | Some v \<Rightarrow> [flag @ ''='' @ v])"

definition bare_directive :: "string \<Rightarrow> bool \<Rightarrow> string list" where
  "bare_directive flag field = (if field then [flag] else [])"

text \<open>The comment's value is rendered between double quotes.\<close>

definition quoted :: "string option \<Rightarrow> string option" where
  "quoted field = map_option (\<lambda>v. [dquote] @ v @ [dquote]) field"

definition spec_directives :: "SLURMJobRequestData \<Rightarrow> string list" where
  "spec_directives r =
     [''--job-name='' @ job_name r]
     @ valued_directive ''--nodes'' (nodes r)
     @ valued_directive ''--mem'' (mem r)
     @ valued_directive ''--mem-bind'' (mem_bind r)
     @ valued_directive ''--mem-per-cpu'' (mem_per_cpu r)
     @ valued_directive ''--cpus-per-task'' (cpus_per_task r)
     @ valued_directive ''--ntasks'' (n_tasks r)
     @ valued_directive ''--time'' (time_limit r)
     @ valued_directive ''--time-min'' (time_min r)
     @ bare_directive ''--exclusive'' (exclusive r)
     @ valued_directive ''--network'' (network r)
     @ bare_directive ''--contiguous'' (contiguous r)
     @ valued_directive ''--partition'' (partition_fld r)
     @ valued_directive ''--power'' (power_fld r)
     @ valued_directive ''--priority'' (priority r)
     @ valued_directive ''--nice'' (nice r)
     @ valued_directive ''--comment'' (quoted (comment r))
     @ valued_directive ''--chdir'' (chdir r)
     @ valued_directive ''--export'' (export r)
     @ valued_directive ''--output'' (stdout_file r)
     @ valued_directive ''--error'' (stderr_file r)"


section \<open>Paths (posixpath)\<close>

text \<open>\<open>os.path.join(a, b)\<close> with two arguments.\<close>

definition path_join :: "string \<Rightarrow> string \<Rightarrow> string" where
  "path_join a b =
     (if prefix ''/'' b then b
      else if a = [] \<or> suffix ''/'' a then a @ b
      else a @ ''/'' @ b)"

text \<open>
  \<open>os.path.dirname(p)\<close>: the part up to the last slash, without its trailing slashes
  unless it consists of slashes only.
\<close>

definition dirname :: "string \<Rightarrow> string" where
  "dirname p =
     (let head = rev (dropWhile (\<lambda>c. c \<noteq> CHR ''/'') (rev p))
      in if head \<noteq> [] \<and> head \<noteq> replicate (length head) CHR ''/''
         then rev (dropWhile (\<lambda>c. c = CHR ''/'') (rev head))
         else head)"

section \<open>The world the driver runs in\<close>

text \<open>
  The driver is one sequential process; everything else (the scheduler, its
  accounting database, the remote side of the allocation writing into the shared
  workspace) is the world. Each interaction of the driver with the outside is one
  tick of \<open>now\<close>. The answers of the outside are functions of the tick at which they
  are asked, so that any behaviour of the outside is some value of these functions:
  \<^item> \<open>process n command\<close>: how the process launched at tick \<open>n\<close> ends (return code,
    standard output, standard error), or the exception of launching or awaiting it;
  \<^item> \<open>remote n\<close>: what the other writers of the file system have done to the regular
    files between the previous interaction and the one at tick \<open>n\<close>;
  \<^item> \<open>mtime n path\<close>: the modification time \<open>os.path.getmtime\<close> reports at tick \<open>n\<close>.
    Time stamps are floats in the source; only their equality is used, and the
    model takes them as integers.
  The driver's own effects are appended to \<open>trace\<close>.
\<close>

datatype level = DEBUG | INFO | CRITICAL

datatype event =
    Command string
  | Write string string
  | Rename string string
  | Chmod string
  | Sleep
  | Print string
  | Log level string

record world =
  now :: nat
  trace :: "event list"
  files :: "string \<rightharpoonup> string"
  remote :: "nat \<Rightarrow> (string \<rightharpoonup> string) \<Rightarrow> (string \<rightharpoonup> string)"
  process :: "nat \<Rightarrow> string \<Rightarrow> error + int \<times> string \<times> string"
  mtime :: "nat \<Rightarrow> string \<Rightarrow> int"
  is_dir :: "string \<Rightarrow> bool"
  can_read :: "string \<Rightarrow> bool"
  can_write :: "string \<Rightarrow> bool"
  can_exec :: "string \<Rightarrow> bool"
  environ :: "string \<rightharpoonup> string"
  log_level :: level
  abspath :: "string \<Rightarrow> string"

definition tick :: "world \<Rightarrow> world" where
  "tick w = w\<lparr>now := Suc (now w), files := remote w (now w) (files w)\<rparr>"

definition emit :: "event \<Rightarrow> world \<Rightarrow> world" where
  "emit e w = w\<lparr>trace := trace w @ [e]\<rparr>"


text \<open>
  \<open>logging.debug\<close>, \<open>logging.info\<close>, \<open>logging.critical\<close>: the call is recorded with
  its level, whatever the level of the root logger lets through.
\<close>

definition logging :: "level \<Rightarrow> string \<Rightarrow> world \<Rightarrow> world" where
  "logging lvl message w = emit (Log lvl message) w"

text \<open>\<open>print(s, end="", file=sys.stderr)\<close> followed by \<open>sys.stderr.flush()\<close>.\<close>

definition print_stderr :: "string \<Rightarrow> world \<Rightarrow> world" where
  "print_stderr s w = emit (Print s) w"

text \<open>\<open>time.sleep(1)\<close>\<close>

definition sleep :: "world \<Rightarrow> world" where
  "sleep w = emit Sleep (tick w)"

subsection \<open>The file system\<close>

definition path_exists :: "string \<Rightarrow> world \<Rightarrow> bool \<times> world" where
  "path_exists path w =
     (let w1 = tick w in (files w1 path \<noteq> None \<or> is_dir w1 path, w1))"

definition isfile :: "string \<Rightarrow> world \<Rightarrow> bool \<times> world" where
  "isfile path w = (let w1 = tick w in (files w1 path \<noteq> None, w1))"

text \<open>\<open>os.access(path, os.X_OK)\<close> and \<open>os.access(path, os.R_OK)\<close>\<close>

definition access_x :: "string \<Rightarrow> world \<Rightarrow> bool \<times> world" where
  "access_x path w =
     (let w1 = tick w
      in ((files w1 path \<noteq> None \<or> is_dir w1 path) \<and> can_exec w1 path, w1))"

definition access_r :: "string \<Rightarrow> world \<Rightarrow> bool \<times> world" where
  "access_r path w =
     (let w1 = tick w
      in ((files w1 path \<noteq> None \<or> is_dir w1 path) \<and> can_read w1 path, w1))"

text \<open>
  \<open>with open(path, "r") as f: f.read()\<close>, from offset \<open>seek\<close>: the text from there to
  the end of the file, and the offset \<open>f.tell()\<close> of the end. A character is a byte.
\<close>

definition read_from :: "string \<Rightarrow> nat \<Rightarrow> world \<Rightarrow> (error + string \<times> nat) \<times> world" where
  "read_from path seek w =
     (let w1 = tick w
      in case files w1 path of
           None \<Rightarrow> (Inl OSError, w1)
         | Some content \<Rightarrow>
             if can_read w1 path
             then (Inr (drop seek content, max seek (length content)), w1)
             else (Inl OSError, w1))"

text \<open>\<open>with open(path, "w") as f: f.write(content)\<close>\<close>

definition write_file :: "string \<Rightarrow> string \<Rightarrow> world \<Rightarrow> (error + unit) \<times> world" where
  "write_file path content w =
     (let w1 = tick w
      in if is_dir w1 path \<or> \<not> can_write w1 path then (Inl OSError, w1)
         else (Inr (), emit (Write path content) (w1\<lparr>files := (files w1)(path \<mapsto> content)\<rparr>)))"


text \<open>\<open>os.chmod(path, 0o777)\<close>\<close>

definition chmod_777 :: "string \<Rightarrow> world \<Rightarrow> (error + unit) \<times> world" where
  "chmod_777 path w =
     (let w1 = tick w
      in if files w1 path = None \<and> \<not> is_dir w1 path then (Inl OSError, w1)
         else (Inr (), emit (Chmod path)
                 (w1\<lparr>can_read := (can_read w1)(path := True),
                     can_write := (can_write w1)(path := True),
                     can_exec := (can_exec w1)(path := True)\<rparr>)))"

definition getmtime :: "string \<Rightarrow> world \<Rightarrow> (error + int) \<times> world" where
  "getmtime path w =
     (let w1 = tick w
      in if files w1 path \<noteq> None \<or> is_dir w1 path then (Inr (mtime w (now w) path), w1)
         else (Inl OSError, w1))"

subsection \<open>Processes\<close>

text \<open>
  \<open>_system(command)\<close>: the command is launched and awaited; its two outputs are
  stripped. The four debug lines it logs are not recorded in the trace.
\<close>

definition system :: "string \<Rightarrow> world \<Rightarrow> (error + int \<times> string \<times> string) \<times> world" where
  "system command w =
     (let w1 = emit (Command command) (tick w)
      in case process w (now w) command of
           Inl e \<Rightarrow> (Inl e, w1)
         | Inr (retcode, stdout, stderr) \<Rightarrow> (Inr (retcode, strip stdout, strip stderr), w1))"

text \<open>\<open>subprocess.Popen(command, shell=True)\<close>: launched and not awaited.\<close>

definition popen :: "string \<Rightarrow> world \<Rightarrow> world" where
  "popen command w = emit (Command command) (tick w)"

section \<open>Bounded polling (driver.py, wait\_until)\<close>

text \<open>
  The condition is a closure with effects: it takes the state and returns its answer,
  or the exception it raises, with the new state. The time-out is a Python integer:
  a negative one never reaches zero, so the loop may not end, and the function is
  partial: \<open>None\<close> is the run that does not return.
\<close>

partial_function (option) wait_until ::
  "('w \<Rightarrow> (error + bool) \<times> 'w) \<Rightarrow> ('w \<Rightarrow> 'w) \<Rightarrow> int \<Rightarrow> 'w \<Rightarrow> ((error + bool) \<times> 'w) option"
where
  "wait_until condition sleep_1 timeout_seconds w =
     (if timeout_seconds \<noteq> 0 then
        (case condition w of
           (Inl e, w1) \<Rightarrow> Some (Inl e, w1)
         | (Inr holds, w1) \<Rightarrow>
             if holds then Some (Inr True, w1)
             else wait_until condition sleep_1 (timeout_seconds - 1) (sleep_1 w1))
      else Some (Inr False, w))"

section \<open>The scheduler's commands (slurm\_interface.py, class SLURMInterface)\<close>

definition bind_err :: "error + 'a \<Rightarrow> ('a \<Rightarrow> error + 'b) \<Rightarrow> error + 'b" where
  "bind_err m f = (case m of Inl e \<Rightarrow> Inl e | Inr x \<Rightarrow> f x)"

text \<open>\<open>f"{x}"\<close> for a value that is a string or \<open>None\<close>.\<close>

definition str_opt :: "string option \<Rightarrow> string" where
  "str_opt x = (case x of None \<Rightarrow> ''None'' | Some s \<Rightarrow> s)"

subsection \<open>The newest job of a name\<close>

text \<open>
  The comprehension \<open>[x for x in stdout_lines if job_name in x.strip().split("|")[1]]\<close>:
  a line with no second field raises IndexError.
\<close>

fun matching_lines :: "string \<Rightarrow> string list \<Rightarrow> error + string list" where
  "matching_lines name [] = Inr []"
| "matching_lines name (x # xs) =
     bind_err (py_index (split_on CHR ''|'' (strip x)) 1) (\<lambda>field.
     bind_err (matching_lines name xs) (\<lambda>rest.
     Inr (if py_in name field then x # rest else rest)))"

text \<open>
  \<open>max(xs, key=key)\<close>: the key of every item is computed, in order; the first item
  with the greatest key is returned; the empty list raises ValueError.
\<close>

fun max_loop :: "('a \<Rightarrow> error + 'k::linorder) \<Rightarrow> 'a \<Rightarrow> 'k \<Rightarrow> 'a list \<Rightarrow> error + 'a" where
  "max_loop key best best_key [] = Inr best"
| "max_loop key best best_key (x # xs) =
     bind_err (key x) (\<lambda>k.
       if k > best_key then max_loop key x k xs else max_loop key best best_key xs)"

definition py_max :: "('a \<Rightarrow> error + 'k::linorder) \<Rightarrow> 'a list \<Rightarrow> error + 'a" where
  "py_max key xs =
     (case xs of
        [] \<Rightarrow> Inl ValueError
      | x # rest \<Rightarrow> bind_err (key x) (\<lambda>k. max_loop key x k rest))"

text \<open>The key \<open>lambda x: x.strip().split("|")[2]\<close>: the submission time stamp of a line.\<close>

definition submit_key :: "string \<Rightarrow> error + string" where
  "submit_key x = py_index (split_on CHR ''|'' (strip x)) 2"

text \<open>\<open>get_id_from_name\<close> from the return code and the output of the command on.\<close>

definition newest_job_id :: "string \<Rightarrow> int \<Rightarrow> string \<Rightarrow> error + string option" where
  "newest_job_id name retcode stdout =
     (if retcode \<noteq> 0 then Inr None
      else
        (let stdout_lines = split_on newline stdout
         in if length stdout_lines = 0 then Inr None
            else
              bind_err (matching_lines name stdout_lines) (\<lambda>stdout_lines.
                if length stdout_lines = 0 then Inr None
                else
                  bind_err (py_max submit_key stdout_lines) (\<lambda>newest_job.
                  bind_err (py_index (split_once CHR ''|'' (strip newest_job)) 0) (\<lambda>job_id.
                  Inr (Some job_id))))))"

definition get_id_from_name :: "string \<Rightarrow> world \<Rightarrow> (error + string option) \<times> world" where
  "get_id_from_name name w =
     (case system (''sacct --name '' @ [dquote] @ name @ [dquote]
                   @ '' --noheader -P --format=JobID,JobName,Submit'') w of
        (Inl e, w1) \<Rightarrow> (Inl e, w1)
      | (Inr (retcode, stdout, _), w1) \<Rightarrow> (newest_job_id name retcode stdout, w1))"

subsection \<open>The accounting record of a job\<close>

definition variables :: "string list" where
  "variables = [''JobID'', ''JobName'', ''State'', ''ExitCode'', ''Elapsed'', ''NTasks'',
                ''Submit'', ''Start'', ''End'', ''Account'', ''User'', ''Timelimit'']"

text \<open>
  The fields of \<open>SLURMRegisteredJobData\<close>, with the prefix \<open>reg_\<close>: several have the
  name of a field of the request.
\<close>

record SLURMRegisteredJobData =
  reg_id :: string
  reg_name :: string
  reg_state :: "SLURMJobState option"
  reg_exit_code :: string
  reg_elapsed :: string
  reg_n_tasks :: string
  reg_submit :: string
  reg_start :: string
  reg_end :: string
  reg_account :: string
  reg_user :: string
  reg_time_limit :: string

text \<open>\<open>raw_data[key]\<close>: KeyError for a key the dictionary does not have.\<close>

definition dict_item :: "('k \<times> 'v) list \<Rightarrow> 'k \<Rightarrow> error + 'v" where
  "dict_item items k = (case map_of items k of None \<Rightarrow> Inl KeyError | Some v \<Rightarrow> Inr v)"

text \<open>The constructor of \<open>SLURMRegisteredJobData\<close>, its look-ups in their order.\<close>

definition registered_job_data :: "(string \<times> string) list \<Rightarrow> error + SLURMRegisteredJobData" where
  "registered_job_data raw_data =
     bind_err (dict_item raw_data ''JobID'') (\<lambda>job_id.
     bind_err (py_index (split_on CHR ''.'' job_id) 0) (\<lambda>id_part.
     bind_err (dict_item raw_data ''JobName'') (\<lambda>name.
     bind_err (dict_item raw_data ''State'') (\<lambda>state.
     bind_err (dict_item raw_data ''ExitCode'') (\<lambda>exit_code.
     bind_err (dict_item raw_data ''Elapsed'') (\<lambda>elapsed.
     bind_err (dict_item raw_data ''NTasks'') (\<lambda>n_tasks.
     bind_err (dict_item raw_data ''Submit'') (\<lambda>submit.
     bind_err (dict_item raw_data ''Start'') (\<lambda>start.
     bind_err (dict_item raw_data ''End'') (\<lambda>end_time.
     bind_err (dict_item raw_data ''Account'') (\<lambda>account.
     bind_err (dict_item raw_data ''User'') (\<lambda>user.
     bind_err (dict_item raw_data ''Timelimit'') (\<lambda>time_limit.
     Inr \<lparr>reg_id = id_part, reg_name = name, reg_state = from_string state,
          reg_exit_code = exit_code, reg_elapsed = elapsed, reg_n_tasks = n_tasks,
          reg_submit = submit, reg_start = start, reg_end = end_time,
          reg_account = account, reg_user = user,
          reg_time_limit = time_limit\<rparr>)))))))))))))"

text \<open>\<open>sacct\<close> from the return code and the output of the command on.\<close>

definition sacct_result :: "int \<Rightarrow> string \<Rightarrow> error + SLURMRegisteredJobData option" where
  "sacct_result retcode stdout =
     (if retcode \<noteq> 0 \<or> length stdout = 0 then Inr None
      else
        (let stdout_lines = split_once newline stdout
         in if length stdout_lines = 0 then Inr None
            else
              bind_err (py_index stdout_lines 0) (\<lambda>first.
              bind_err (registered_job_data (zip variables (split_on CHR ''|'' (strip first))))
                (\<lambda>job. Inr (Some job)))))"

definition sacct :: "string option \<Rightarrow> world \<Rightarrow> (error + SLURMRegisteredJobData option) \<times> world" where
  "sacct job_id w =
     (case system (''sacct --jobs '' @ str_opt job_id @ '' --noheader -P --format=''
                   @ join '','' variables) w of
        (Inl e, w1) \<Rightarrow> (Inl e, w1)
      | (Inr (retcode, stdout, _), w1) \<Rightarrow> (sacct_result retcode stdout, w1))"

definition exists :: "string option \<Rightarrow> world \<Rightarrow> (error + bool) \<times> world" where
  "exists job_id w =
     (case sacct job_id w of
        (Inl e, w1) \<Rightarrow> (Inl e, w1)
      | (Inr job, w1) \<Rightarrow> (Inr (job \<noteq> None), w1))"

definition scancel :: "string option \<Rightarrow> world \<Rightarrow> (error + bool) \<times> world" where
  "scancel job_id w =
     (case system (''scancel '' @ str_opt job_id) w of
        (Inl e, w1) \<Rightarrow> (Inl e, w1)
      | (Inr (retcode, _, _), w1) \<Rightarrow> (Inr (retcode = 0), w1))"

definition sbatch :: "string \<Rightarrow> world \<Rightarrow> (error + string option) \<times> world" where
  "sbatch sbatch_filepath w =
     (case system (''sbatch --parsable '' @ sbatch_filepath) w of
        (Inl e, w1) \<Rightarrow> (Inl e, w1)
      | (Inr (retcode, stdout, _), w1) \<Rightarrow>
          if retcode \<noteq> 0 then (Inr None, w1)
          else
            (bind_err (py_index (split_once newline (strip stdout)) 0) (\<lambda>first.
             bind_err (py_index (split_once CHR '';'' first) 0) (\<lambda>job_id.
             Inr (Some job_id))), w1))"

section \<open>Environment variables (driver.py, class GitLabJobInterface)\<close>

text \<open>
  \<open>get_env(key, default)\<close>: the job-local variable, else the global one, else the
  default.
\<close>

definition get_env :: "string \<Rightarrow> 'a \<Rightarrow> world \<Rightarrow> string + 'a" where
  "get_env key dflt w =
     (let gitlab_ci_env_token = ''CUSTOM_ENV_'';
          local_key = gitlab_ci_env_token @ ''LOCAL_'' @ key;
          global_key = gitlab_ci_env_token @ key
      in case environ w local_key of
           Some v \<Rightarrow> Inl v
         | None \<Rightarrow> (case environ w global_key of Some v \<Rightarrow> Inl v | None \<Rightarrow> Inr dflt))"

text \<open>
  \<open>int(s)\<close> for a string, in base ten: white space around, an optional sign, then
  digits, with single underscores allowed between digits; ValueError otherwise. Only
  the ASCII digits are covered.
\<close>

definition is_digit :: "char \<Rightarrow> bool" where
  "is_digit c = (CHR ''0'' \<le> c \<and> c \<le> CHR ''9'')"

fun parse_digits :: "nat \<Rightarrow> bool \<Rightarrow> string \<Rightarrow> error + nat" where
  "parse_digits acc after_digit [] = (if after_digit then Inr acc else Inl ValueError)"
| "parse_digits acc after_digit (c # cs) =
     (if is_digit c then parse_digits (10 * acc + (of_char c - 48)) True cs
      else if c = CHR ''_'' \<and> after_digit then parse_digits acc False cs
      else Inl ValueError)"

definition py_int :: "string \<Rightarrow> error + int" where
  "py_int s =
     (case strip s of
        [] \<Rightarrow> Inl ValueError
      | c # cs \<Rightarrow>
          if c = CHR ''-'' then bind_err (parse_digits 0 False cs) (\<lambda>n. Inr (- int n))
          else if c = CHR ''+'' then bind_err (parse_digits 0 False cs) (\<lambda>n. Inr (int n))
          else bind_err (parse_digits 0 False (c # cs)) (\<lambda>n. Inr (int n)))"

definition SLURM_JOB_STOP_TIMEOUT_SECONDS_BEFORE_CANCEL :: int where
  "SLURM_JOB_STOP_TIMEOUT_SECONDS_BEFORE_CANCEL = 30"

section \<open>The allocation handle (driver.py, class SLURMIdleJob)\<close>

text \<open>
  The field \<open>id\<close> is \<open>job_id\<close> here (\<open>id\<close> is the identity function of HOL). It holds
  what \<open>sbatch\<close> or \<open>get_id_from_name\<close> returned. The workspace directory is a
  string.
\<close>

record SLURMIdleJob =
  job_id :: "string option"
  work_dir :: string
  current_execution :: "string option"

text \<open>The constructor.\<close>

definition idle_job :: "string option \<Rightarrow> string \<Rightarrow> SLURMIdleJob" where
  "idle_job jid wd = \<lparr>job_id = jid, work_dir = wd, current_execution = None\<rparr>"

definition attach :: "string \<Rightarrow> string \<Rightarrow> world \<Rightarrow> (error + SLURMIdleJob option) \<times> world" where
  "attach name wd w =
     (case get_id_from_name name w of
        (Inl e, w1) \<Rightarrow> (Inl e, w1)
      | (Inr None, w1) \<Rightarrow> (Inr None, w1)
      | (Inr (Some jid), w1) \<Rightarrow> (Inr (Some (idle_job (Some jid) wd)), w1))"

text \<open>\<open>SLURMInterface.sacct(self.id).state\<close>: AttributeError when \<open>sacct\<close> gave \<open>None\<close>.\<close>

definition get_state :: "SLURMIdleJob \<Rightarrow> world \<Rightarrow> (error + SLURMJobState option) \<times> world" where
  "get_state self w =
     (case sacct (job_id self) w of
        (Inl e, w1) \<Rightarrow> (Inl e, w1)
      | (Inr None, w1) \<Rightarrow> (Inl AttributeError, w1)
      | (Inr (Some job), w1) \<Rightarrow> (Inr (reg_state job), w1))"

definition is_running :: "SLURMIdleJob \<Rightarrow> world \<Rightarrow> (error + bool) \<times> world" where
  "is_running self w =
     (case get_state self w of
        (Inl e, w1) \<Rightarrow> (Inl e, w1)
      | (Inr state, w1) \<Rightarrow> (Inr (state = Some RUNNING), w1))"




subsection \<open>Dispatching a script\<close>


subsection \<open>Stopping\<close>

definition exit_script_path :: "SLURMIdleJob \<Rightarrow> string" where
  "exit_script_path self = path_join (work_dir self) ''batch.gitlab_ci_exit''"

definition mark_stop :: "SLURMIdleJob \<Rightarrow> world \<Rightarrow> (error + unit) \<times> world" where
  "mark_stop self w =
     (case write_file (exit_script_path self)
             ''This file  is used to instruct the SLURM job to stop'' w of
        (Inl e, w1) \<Rightarrow> (Inl e, w1)
      | (Inr _, w1) \<Rightarrow>
          (Inr (), logging DEBUG
                     (''Created the exit file: '' @ abspath w1 (exit_script_path self)) w1))"

text \<open>The closure \<open>lambda: not self.is_running()\<close>.\<close>

definition not_running :: "SLURMIdleJob \<Rightarrow> world \<Rightarrow> (error + bool) \<times> world" where
  "not_running self w =
     (case is_running self w of
        (Inl e, w1) \<Rightarrow> (Inl e, w1)
      | (Inr running, w1) \<Rightarrow> (Inr (\<not> running), w1))"

text \<open>
  \<open>int(GitLabJobInterface.get_env("SLURM_JOB_STOP_TIMEOUT_SECONDS_BEFORE_CANCEL", 30))\<close>
\<close>

definition stop_timeout :: "world \<Rightarrow> error + int" where
  "stop_timeout w =
     (case get_env ''SLURM_JOB_STOP_TIMEOUT_SECONDS_BEFORE_CANCEL''
             SLURM_JOB_STOP_TIMEOUT_SECONDS_BEFORE_CANCEL w of
        Inl s \<Rightarrow> py_int s
      | Inr n \<Rightarrow> Inr n)"

text \<open>The \<open>try\<close> block of \<open>try_stop\<close>; \<open>None\<close> when the wait does not return.\<close>

definition try_stop_body :: "SLURMIdleJob \<Rightarrow> world \<Rightarrow> ((error + unit) \<times> world) option" where
  "try_stop_body self w =
     (case mark_stop self w of
        (Inl e, w1) \<Rightarrow> Some (Inl e, w1)
      | (Inr _, w1) \<Rightarrow>
          (case stop_timeout w1 of
             Inl e \<Rightarrow> Some (Inl e, w1)
           | Inr timeout_before_cancel \<Rightarrow>
               (case wait_until (not_running self) sleep timeout_before_cancel w1 of
                  None \<Rightarrow> None
                | Some (Inl e, w2) \<Rightarrow> Some (Inl e, w2)
                | Some (Inr _, w2) \<Rightarrow> Some (Inr (), w2))))"

text \<open>
  \<open>try_stop\<close>: the \<open>finally\<close> block runs whatever the outcome of the \<open>try\<close> block was;
  an exception of its own replaces that outcome.
\<close>

definition try_stop :: "SLURMIdleJob \<Rightarrow> world \<Rightarrow> ((error + unit) \<times> world) option" where
  "try_stop self w =
     (case try_stop_body self w of
        None \<Rightarrow> None
      | Some (outcome, w1) \<Rightarrow>
          (case is_running self w1 of
             (Inl e, w2) \<Rightarrow> Some (Inl e, w2)
           | (Inr running, w2) \<Rightarrow>
               if running then
                 (case scancel (job_id self) w2 of
                    (Inl e, w3) \<Rightarrow> Some (Inl e, w3)
                  | (Inr _, w3) \<Rightarrow> Some (outcome, w3))
               else Some (outcome, w2)))"

subsection \<open>Creating the allocation\<close>

text \<open>
  \<open>create\<close>, lines 111 to 128: the submission script is written, made accessible,
  logged, submitted, and the new job is awaited. The batch file is opened for writing
  before its content is computed. \<open>None\<close> is the run whose wait does not return.
\<close>

definition debug_dump :: "string \<Rightarrow> world \<Rightarrow> (error + unit) \<times> world" where
  "debug_dump batch_filepath w =
     (if log_level w = DEBUG then
        (case read_from batch_filepath 0 w of
           (Inl e, w1) \<Rightarrow> (Inl e, w1)
         | (Inr (text, _), w1) \<Rightarrow>
             (Inr (), logging DEBUG
                        (''Content of '' @ batch_filepath @ '':'' @ [newline] @ text) w1))
      else (Inr (), w))"

definition create_submit ::
  "SLURMJobRequestData \<Rightarrow> string \<Rightarrow> string \<Rightarrow> string \<Rightarrow> world
     \<Rightarrow> ((error + SLURMIdleJob option) \<times> world) option" where
  "create_submit configuration wd batch_filename idle_bash_script_filepath w =
     (let batch_filepath = path_join wd batch_filename
      in case to_sbatch_file_string configuration [''. '' @ idle_bash_script_filepath] of
           Inl e \<Rightarrow>
             (case write_file batch_filepath [] w of
                (Inl e', w1) \<Rightarrow> Some (Inl e', w1)
              | (Inr _, w1) \<Rightarrow> Some (Inl e, w1))
         | Inr text \<Rightarrow>
             (case write_file batch_filepath text w of
                (Inl e, w1) \<Rightarrow> Some (Inl e, w1)
              | (Inr _, w1) \<Rightarrow>
             (case chmod_777 batch_filepath w1 of
                (Inl e, w2) \<Rightarrow> Some (Inl e, w2)
              | (Inr _, w2) \<Rightarrow>
             (case debug_dump batch_filepath
                     (logging INFO (''Created the sbatch configuration file in ''
                                    @ abspath w2 batch_filepath) w2) of
                (Inl e, w3) \<Rightarrow> Some (Inl e, w3)
              | (Inr _, w3) \<Rightarrow>
             (case sbatch batch_filepath w3 of
                (Inl e, w4) \<Rightarrow> Some (Inl e, w4)
              | (Inr jid, w4) \<Rightarrow>
             (case wait_until (exists jid) sleep 120
                     (logging DEBUG (''Submitted SLURM job with ID '' @ str_opt jid) w4) of
                None \<Rightarrow> None
              | Some (Inl e, w5) \<Rightarrow> Some (Inl e, w5)
              | Some (Inr _, w5) \<Rightarrow>
             (case exists jid w5 of
                (Inl e, w6) \<Rightarrow> Some (Inl e, w6)
              | (Inr found, w6) \<Rightarrow>
                  Some (Inr (if found then Some (idle_job jid wd) else None), w6))))))))"

text \<open>
  \<open>create\<close>: the three checks of the idle script, then the submission. The path of the
  idle script (next to the driver's own file) is a parameter.
\<close>

definition create ::
  "SLURMJobRequestData \<Rightarrow> string \<Rightarrow> string \<Rightarrow> string \<Rightarrow> world
     \<Rightarrow> ((error + SLURMIdleJob option) \<times> world) option" where
  "create configuration wd batch_filename idle_bash_script_filepath w =
     (let (is_file, w1) = isfile idle_bash_script_filepath w
      in if \<not> is_file then
           Some (Inr None,
                 logging CRITICAL
                   (''File '' @ idle_bash_script_filepath @ '' does not exist'') w1)
         else
           (let (x_ok, w2) = access_x idle_bash_script_filepath w1
            in if \<not> x_ok then
                 Some (Inr None,
                       logging CRITICAL
                         (''File '' @ idle_bash_script_filepath @ '' is not executable'') w2)
               else
                 (let (r_ok, w3) = access_r idle_bash_script_filepath w2
                  in if \<not> r_ok then
                       Some (Inr None,
                             logging CRITICAL
                               (''File '' @ idle_bash_script_filepath @ '' is not readable'') w3)
                     else create_submit configuration wd batch_filename
                            idle_bash_script_filepath w3)))"

section \<open>Running a script and forwarding its log (driver.py, GitLabPhases.run)\<close>

definition update_file_timestamp :: "string \<Rightarrow> world \<Rightarrow> world" where
  "update_file_timestamp path w =
     (let (found, w1) = path_exists path w
      in if \<not> found then w1
         else
           (let (is_file, w2) = isfile path w1
            in if \<not> is_file then w2
               else popen (''touch -c -m '' @ path @ '' >/dev/null'') w2))"

definition flush_system_io :: "string \<Rightarrow> world \<Rightarrow> world" where
  "flush_system_io path w = popen (''ls -la '' @ dirname path @ '' >/dev/null'') w"

text \<open>The closure \<open>is_phase_executed\<close>; \<open>and\<close> does not evaluate its right side after \<open>False\<close>.\<close>

definition is_phase_executed :: "SLURMIdleJob \<Rightarrow> string \<Rightarrow> world \<Rightarrow> (error + bool) \<times> world" where
  "is_phase_executed job script_executed_file w =
     (case is_running job (flush_system_io script_executed_file w) of
        (Inl e, w1) \<Rightarrow> (Inl e, w1)
      | (Inr running, w1) \<Rightarrow>
          if \<not> running then (Inr False, w1)
          else (let (is_file, w2) = isfile script_executed_file w1 in (Inr is_file, w2)))"

text \<open>
  The \<open>while\<close> loop of \<open>run\<close> (lines 292 to 303), from the values of \<open>read_bytes\<close> and
  \<open>last_read_timestamp\<close> at the head of the loop. It returns \<open>read_bytes\<close> at the exit
  of the loop, or the exception that ended it; \<open>None\<close> is the loop that does not end.
\<close>

partial_function (option) run_loop ::
  "SLURMIdleJob \<Rightarrow> string \<Rightarrow> string \<Rightarrow> nat \<Rightarrow> int \<Rightarrow> world \<Rightarrow> ((error + nat) \<times> world) option"
where
  "run_loop job script_executed_file script_log_file read_bytes last_read_timestamp w =
     (case wait_until (is_phase_executed job script_executed_file) sleep 10 w of
        None \<Rightarrow> None
      | Some (Inl e, w1) \<Rightarrow> Some (Inl e, w1)
      | Some (Inr executed, w1) \<Rightarrow>
          if executed then Some (Inr read_bytes, w1)
          else
            (case is_running job w1 of
               (Inl e, w2) \<Rightarrow> Some (Inl e, w2)
             | (Inr running, w2) \<Rightarrow>
                 if \<not> running then Some (Inr read_bytes, w2)
                 else
                   (case getmtime script_log_file
                           (update_file_timestamp script_executed_file w2) of
                      (Inl e, w3) \<Rightarrow> Some (Inl e, w3)
                    | (Inr last_edit_timestamp, w3) \<Rightarrow>
                        if last_edit_timestamp \<noteq> last_read_timestamp then
                          (case read_from script_log_file read_bytes w3 of
                             (Inl e, w4) \<Rightarrow> Some (Inl e, w4)
                           | (Inr (text, position), w4) \<Rightarrow>
                               run_loop job script_executed_file script_log_file
                                 position last_edit_timestamp (print_stderr text w4))
                        else
                          run_loop job script_executed_file script_log_file
                            read_bytes last_read_timestamp w3)))"

text \<open>
  Lines 289 to 309 of \<open>run\<close>: the loop from offset 0 and time stamp 0, then the last
  read of the log from where the loop stopped.
\<close>

definition run_forward_log ::
  "SLURMIdleJob \<Rightarrow> string \<Rightarrow> string \<Rightarrow> world \<Rightarrow> ((error + unit) \<times> world) option" where
  "run_forward_log job script_executed_file script_log_file w =
     (case run_loop job script_executed_file script_log_file 0 0 w of
        None \<Rightarrow> None
      | Some (Inl e, w1) \<Rightarrow> Some (Inl e, w1)
      | Some (Inr read_bytes, w1) \<Rightarrow>
          (case read_from script_log_file read_bytes w1 of
             (Inl e, w2) \<Rightarrow> Some (Inl e, w2)
           | (Inr (text, _), w2) \<Rightarrow> Some (Inr (), print_stderr text w2)))"

section \<open>A world at rest\<close>

text \<open>
  A concrete world for the evaluations below: no file, no directory, every path
  accessible, nobody else writing, every command ending with return code 0 and no
  output, no environment variable set.
\<close>

definition quiet_world :: world where
  "quiet_world =
     \<lparr>now = 0, trace = [], files = Map.empty, remote = (\<lambda>n fs. fs),
      process = (\<lambda>n command. Inr (0, [], [])), mtime = (\<lambda>n path. 0),
      is_dir = (\<lambda>path. False), can_read = (\<lambda>path. True), can_write = (\<lambda>path. True),
      can_exec = (\<lambda>path. True), environ = Map.empty, log_level = INFO,
      abspath = (\<lambda>path. path)\<rparr>"

section \<open>Names used in the statements\<close>

text \<open>A request with three optional fields present.\<close>

definition example_request :: SLURMJobRequestData where
  "example_request =
     \<lparr>job_name = ''7__8_9'', nodes = Some ''2'', mem = None, mem_bind = None,
      mem_per_cpu = None, cpus_per_task = None, n_tasks = None, time_limit = None,
      time_min = None, exclusive = True, network = None, contiguous = False,
      partition_fld = None, power_fld = None, priority = None, nice = None,
      comment = Some ''ci'', chdir = None, export = None, stdout_file = None,
      stderr_file = None\<rparr>"

text \<open>The text \<open>mark_stop\<close> writes into the exit file.\<close>

definition stop_message :: string where
  "stop_message = ''This file  is used to instruct the SLURM job to stop''"


text \<open>The command \<open>sacct\<close> launches for a job.\<close>

definition sacct_command :: "string option \<Rightarrow> string" where
  "sacct_command jid =
     ''sacct --jobs '' @ str_opt jid @ '' --noheader -P --format='' @ join '','' variables"

text \<open>
  What \<open>is_running\<close> answers when it is asked at tick \<open>n\<close>: whether the accounting
  query launched at that tick reports the state RUNNING.
\<close>

definition running_at :: "SLURMIdleJob \<Rightarrow> world \<Rightarrow> nat \<Rightarrow> bool" where
  "running_at self w n = (fst (is_running self (w\<lparr>now := n\<rparr>)) = Inr True)"

text \<open>How often a trace cancels the job, and how often it sleeps.\<close>

definition cancels :: "SLURMIdleJob \<Rightarrow> event list \<Rightarrow> nat" where
  "cancels self es = length (filter (\<lambda>e. e = Command (''scancel '' @ str_opt (job_id self))) es)"

definition sleeps :: "event list \<Rightarrow> nat" where
  "sleeps es = length (filter (\<lambda>e. e = Sleep) es)"









text \<open>\<open>later w w'\<close>: the same processes, and no tick lost.\<close>

definition later :: "world \<Rightarrow> world \<Rightarrow> bool" where
  "later w w' = (process w' = process w \<and> now w \<le> now w')"






section \<open>The submission artifact\<close>

text \<open>What the comprehension \<open>[x for x in parameters if x is not None]\<close> keeps of one entry.\<close>

lemma keep_step:
  "map the (filter (\<lambda>x. x \<noteq> None) (a # xs))
     = (case a of None \<Rightarrow> [] | Some v \<Rightarrow> [v]) @ map the (filter (\<lambda>x. x \<noteq> None) xs)"
  by (cases a) simp_all

lemma keep_valued:
  "(case (case field of None \<Rightarrow> None | Some v \<Rightarrow> Some (g v)) of None \<Rightarrow> [] | Some v \<Rightarrow> [v])
     = (case field of None \<Rightarrow> [] | Some v \<Rightarrow> [g v])"
  by (cases field) simp_all

lemma keep_bare:
  "(case (if b then Some flag else None) of None \<Rightarrow> [] | Some v \<Rightarrow> [v]) = bare_directive flag b"
  by (simp add: bare_directive_def)

lemma get_cli_parameters_spec: "get_cli_parameters r = spec_directives r"
  unfolding get_cli_parameters_def spec_directives_def Let_def
  apply (simp only: keep_step filter.simps(1) list.map(1) append_Nil2 option.case keep_valued keep_bare)
  apply (simp only: valued_directive_def quoted_def append.simps case_map_option comp_def)
  done









lemma append_section: "(@) (x # xs) = (\<lambda>d. x # (xs @ d))"
  by (rule ext) simp


text \<open>
  When no line holds a line feed, splitting the artifact at line feeds gives these
  lines back, so the artifact read line by line has exactly this shape.
\<close>

lemma split_on_no_sep: "sep \<notin> set x \<Longrightarrow> split_on sep x = [x]"
  by (induction x) auto

lemma split_on_append: "sep \<notin> set x \<Longrightarrow> split_on sep (x @ sep # rest) = x # split_on sep rest"
  by (induction x) auto

lemma split_on_join:
  "xs \<noteq> [] \<Longrightarrow> \<forall>x\<in>set xs. sep \<notin> set x \<Longrightarrow> split_on sep (join [sep] xs) = xs"
  by (induction "[sep]" xs rule: join.induct) (simp_all add: split_on_no_sep split_on_append)

lemma sbatch_file_lines:
  assumes "to_sbatch_file_string r [payload] = Inr artifact"
    and "\<forall>d\<in>set (spec_directives r). newline \<notin> set d"
    and "newline \<notin> set payload"
  shows "split_on newline artifact =
           [''#!/bin/bash'', '''']
           @ map (\<lambda>d. ''#SBATCH '' @ d) (spec_directives r)
           @ ['''', payload]"
proof -
  let ?lines = "[''#!/bin/bash'', '''']
           @ map (\<lambda>d. ''#SBATCH '' @ d) (spec_directives r)
           @ ['''', payload]"
  have "artifact = join [newline] ?lines"
    using assms(1)
    by (simp add: to_sbatch_file_string_def get_cli_parameters_spec append_section
          del: join.simps)
  moreover have "\<forall>x\<in>set ?lines. newline \<notin> set x"
    using assms(2,3) by (auto simp: newline_def)
  moreover have "?lines \<noteq> []" by simp
  ultimately show ?thesis
    using split_on_join [of ?lines newline] by simp
qed

text \<open>The artifact of a request with three present fields, evaluated.\<close>

lemma sbatch_file_example:
  "to_sbatch_file_string example_request [''. /opt/idle_script.sh'']
   = Inr (''#!/bin/bash'' @ [newline, newline]
          @ ''#SBATCH --job-name=7__8_9'' @ [newline]
          @ ''#SBATCH --nodes=2'' @ [newline]
          @ ''#SBATCH --exclusive'' @ [newline]
          @ ''#SBATCH --comment='' @ [dquote] @ ''ci'' @ [dquote] @ [newline, newline]
          @ ''. /opt/idle_script.sh'')"
  by (simp add: to_sbatch_file_string_def get_cli_parameters_def example_request_def)

section \<open>The code table\<close>

lemma equivalent_states_keys_distinct: "distinct (map fst get_equivalent_states)"
  by (simp add: get_equivalent_states_def)

lemma two_codes:
  "from_string l = Some s \<Longrightarrow> from_string sh = Some s \<Longrightarrow> l \<noteq> sh \<Longrightarrow>
   \<exists>long short. long \<noteq> short \<and> from_string long = Some s \<and> from_string short = Some s"
  by blast

lemma from_string_both_codes:
  "\<exists>long short. long \<noteq> short \<and> from_string long = Some s \<and> from_string short = Some s"
proof (cases s)
  case BOOT_FAIL
  show ?thesis
    unfolding BOOT_FAIL
    by (rule two_codes [of "''BOOT_FAIL''" _ "''BF''"])
      (simp_all add: from_string_def dict_get_def get_equivalent_states_def)
  next
  case CANCELLED
  show ?thesis
    unfolding CANCELLED
    by (rule two_codes [of "''CANCELLED''" _ "''CA''"])
      (simp_all add: from_string_def dict_get_def get_equivalent_states_def)
  next
  case COMPLETED
  show ?thesis
    unfolding COMPLETED
    by (rule two_codes [of "''COMPLETED''" _ "''CD''"])
      (simp_all add: from_string_def dict_get_def get_equivalent_states_def)
  next
  case DEADLINE
  show ?thesis
    unfolding DEADLINE
    by (rule two_codes [of "''DEADLINE''" _ "''DL''"])
      (simp_all add: from_string_def dict_get_def get_equivalent_states_def)
  next
  case FAILED
  show ?thesis
    unfolding FAILED
    by (rule two_codes [of "''FAILED''" _ "''F''"])
      (simp_all add: from_string_def dict_get_def get_equivalent_states_def)
  next
  case NODE_FAIL
  show ?thesis
    unfolding NODE_FAIL
    by (rule two_codes [of "''NODE_FAIL''" _ "''NF''"])
      (simp_all add: from_string_def dict_get_def get_equivalent_states_def)
  next
  case OUT_OF_MEMORY
  show ?thesis
    unfolding OUT_OF_MEMORY
    by (rule two_codes [of "''OUT_OF_MEMORY''" _ "''OOM''"])
      (simp_all add: from_string_def dict_get_def get_equivalent_states_def)
  next
  case PENDING
  show ?thesis
    unfolding PENDING
    by (rule two_codes [of "''PENDING''" _ "''PD''"])
      (simp_all add: from_string_def dict_get_def get_equivalent_states_def)
  next
  case PREEMPTED
  show ?thesis
    unfolding PREEMPTED
    by (rule two_codes [of "''PREEMPTED''" _ "''PR''"])
      (simp_all add: from_string_def dict_get_def get_equivalent_states_def)
  next
  case RUNNING
  show ?thesis
    unfolding RUNNING
    by (rule two_codes [of "''RUNNING''" _ "''R''"])
      (simp_all add: from_string_def dict_get_def get_equivalent_states_def)
  next
  case REQUEUED
  show ?thesis
    unfolding REQUEUED
    by (rule two_codes [of "''REQUEUED''" _ "''RQ''"])
      (simp_all add: from_string_def dict_get_def get_equivalent_states_def)
  next
  case RESIZING
  show ?thesis
    unfolding RESIZING
    by (rule two_codes [of "''RESIZING''" _ "''RS''"])
      (simp_all add: from_string_def dict_get_def get_equivalent_states_def)
  next
  case REVOKED
  show ?thesis
    unfolding REVOKED
    by (rule two_codes [of "''REVOKED''" _ "''RV''"])
      (simp_all add: from_string_def dict_get_def get_equivalent_states_def)
  next
  case SUSPENDED
  show ?thesis
    unfolding SUSPENDED
    by (rule two_codes [of "''SUSPENDED''" _ "''S''"])
      (simp_all add: from_string_def dict_get_def get_equivalent_states_def)
  next
  case TIMEOUT
  show ?thesis
    unfolding TIMEOUT
    by (rule two_codes [of "''TIMEOUT''" _ "''TO''"])
      (simp_all add: from_string_def dict_get_def get_equivalent_states_def)
qed

text \<open>
  Claim C4. Deriving a job state from a scheduler status code never fails: the
  lookup is a total function into \<open>SLURMJobState option\<close>. Every code of the table,
  short or long, maps to the state the table pairs it with; every state has a long
  and a short code; and a code that is not in the table maps to \<open>None\<close>, the code's
  value for an unknown state (the enumeration has no member of that name).
\<close>

theorem from_string_table:
  "((k, v) \<in> set get_equivalent_states \<longrightarrow> from_string k = Some v)
   \<and> (k' \<notin> fst ` set get_equivalent_states \<longrightarrow> from_string k' = None)
   \<and> (\<exists>long short. long \<noteq> short
         \<and> from_string long = Some s \<and> from_string short = Some s)"
proof (intro conjI impI)
  assume "(k, v) \<in> set get_equivalent_states"
  then show "from_string k = Some v"
    unfolding from_string_def dict_get_def
    using equivalent_states_keys_distinct by (rule_tac map_of_is_SomeI)
next
  assume "k' \<notin> fst ` set get_equivalent_states"
  then show "from_string k' = None"
    unfolding from_string_def dict_get_def by (simp add: map_of_eq_None_iff)
next
  show "\<exists>long short. long \<noteq> short
         \<and> from_string long = Some s \<and> from_string short = Some s"
    by (rule from_string_both_codes)
qed

theorem from_string_table_witness:
  "from_string ''PD'' = Some PENDING \<and> from_string ''CANCELLED by 1000'' = None
   \<and> (\<exists>long short. long \<noteq> short
         \<and> from_string long = Some RUNNING \<and> from_string short = Some RUNNING)"
proof -
  note t = from_string_table [of "''PD''" PENDING "''CANCELLED by 1000''" RUNNING]
  have a: "(''PD'', PENDING) \<in> set get_equivalent_states"
    by (simp add: get_equivalent_states_def)
  have b: "''CANCELLED by 1000'' \<notin> fst ` set get_equivalent_states"
    by (simp add: get_equivalent_states_def)
  have "from_string ''PD'' = Some PENDING"
    by (rule mp [OF conjunct1 [OF t] a])
  moreover have "from_string ''CANCELLED by 1000'' = None"
    by (rule mp [OF conjunct1 [OF conjunct2 [OF t]] b])
  moreover note conjunct2 [OF conjunct2 [OF t]]
  ultimately show ?thesis by (intro conjI)
qed

text \<open>
  Claim C9. For every job state, \<open>to_string\<close> returns a code (it does not raise
  ValueError), and parsing that code with \<open>from_string\<close> gives the state back.
\<close>

theorem from_string_to_string:
  "\<exists>code. to_string s = Inr code \<and> from_string code = Some s"
  by (cases s)
    (simp_all add: to_string_def from_string_def dict_get_def get_equivalent_states_def)

section \<open>Bounded polling\<close>

text \<open>
  Claim C2, as stated, fails. It says that with a time-out of 0 the predicate is
  evaluated exactly once, without a sleep, and that the result of this evaluation is
  returned: the call would return what one evaluation of the condition returns, in the
  state that evaluation leaves. With a condition that counts its evaluations and always
  holds, the call returns \<open>False\<close> and the count stays 0.
\<close>

theorem wait_until_zero_counterexample:
  "\<not> (\<forall>(condition :: nat \<Rightarrow> (error + bool) \<times> nat) sleep_1 w.
         wait_until condition sleep_1 0 w = Some (condition w))"
proof
  assume claim: "\<forall>(condition :: nat \<Rightarrow> (error + bool) \<times> nat) sleep_1 w.
         wait_until condition sleep_1 0 w = Some (condition w)"
  have "wait_until (\<lambda>n::nat. (Inr True, Suc n)) (\<lambda>n. n) 0 0 = Some (Inr False, 0)"
    by (subst wait_until.simps) simp
  moreover from claim
  have "wait_until (\<lambda>n::nat. (Inr True, Suc n)) (\<lambda>n. n) 0 0 = Some (Inr True, Suc 0)"
    by blast
  ultimately show False by simp
qed

text \<open>
  Claim C2, amended. With a time-out of 0 the call returns \<open>False\<close> and leaves the state
  as it was: the condition is not evaluated and nothing sleeps. With any other
  time-out, if the first evaluation of the condition holds, the call returns \<open>True\<close> in
  the state that evaluation leaves: one evaluation, no sleep.
\<close>

theorem wait_until_single_shot:
  "wait_until condition sleep_1 0 w = Some (Inr False, w)
   \<and> (timeout_seconds \<noteq> 0 \<longrightarrow> condition w = (Inr True, w1)
        \<longrightarrow> wait_until condition sleep_1 timeout_seconds w = Some (Inr True, w1))"
  by (subst wait_until.simps, simp, subst wait_until.simps, simp)

text \<open>The state counts the evaluations and the sleeps.\<close>

theorem wait_until_single_shot_witness:
  "wait_until (\<lambda>(evals, sleeps). (Inr True, (Suc evals, sleeps)))
      (\<lambda>(evals, sleeps). (evals, Suc sleeps)) 0 (0::nat, 0::nat)
     = Some (Inr False, (0, 0))
   \<and> wait_until (\<lambda>(evals, sleeps). (Inr True, (Suc evals, sleeps)))
      (\<lambda>(evals, sleeps). (evals, Suc sleeps)) 10 (0::nat, 0::nat)
     = Some (Inr True, (1, 0))"
  using wait_until_single_shot [of "\<lambda>(evals, sleeps). (Inr True, (Suc evals, sleeps))"
      "\<lambda>(evals, sleeps). (evals, Suc sleeps)" "(0::nat, 0::nat)" 10 "(1, 0)"]
  by simp

text \<open>With a time-out that is not negative the call returns.\<close>

lemma wait_until_returns:
  "\<exists>r. wait_until condition sleep_1 (int n) w = Some r"
proof (induction n arbitrary: w)
  case 0
  show ?case by (subst wait_until.simps) simp
next
  case (Suc n)
  obtain r w1 where c: "condition w = (r, w1)" by (cases "condition w")
  show ?case
  proof (cases r)
    case (Inl e)
    with c show ?thesis by (subst wait_until.simps) simp
  next
    case (Inr holds)
    with c Suc [of "sleep_1 w1"] show ?thesis
      by (subst wait_until.simps) auto
  qed
qed

section \<open>Attaching to the newest job of a name\<close>

lemma py_index_Nil: "py_index [] n = Inl IndexError"
  by (simp add: py_index_def)

lemma py_index_Cons: "py_index (x # xs) n = (if n = 0 then Inr x else py_index xs (n - 1))"
  by (cases n) (simp_all add: py_index_def)

text \<open>
  Claim C3, at the input where the code fails it. When no job has the name, the
  accounting command prints nothing and ends with return code 0. The output, split
  at line feeds, is one empty line; the filter asks for its second field, and
  \<open>attach\<close> raises IndexError where the claim (and the docstring of
  \<open>get_id_from_name\<close>) says it returns \<open>None\<close>.
\<close>

theorem attach_no_job:
  "fst (attach name wd (w\<lparr>process := \<lambda>n command. Inr (0, [], [])\<rparr>)) = Inl IndexError"
  by (simp add: attach_def get_id_from_name_def system_def newest_job_id_def strip_def
        bind_err_def py_index_def split: prod.splits)

text \<open>
  The rest of the claim holds. \<open>max\<close> returns a line whose time stamp is greatest among
  the lines that passed the filter.
\<close>

lemma max_loop_greatest:
  "max_loop key best best_key xs = Inr m \<Longrightarrow> key best = Inr best_key \<Longrightarrow>
   (m = best \<or> m \<in> set xs)
   \<and> (\<exists>km. key m = Inr km \<and> best_key \<le> km
         \<and> (\<forall>x\<in>set xs. \<exists>k. key x = Inr k \<and> k \<le> km))"
proof (induction xs arbitrary: best best_key)
  case Nil
  then show ?case by simp
next
  case (Cons x xs)
  from Cons.prems(1) obtain k where k: "key x = Inr k"
    by (cases "key x") (simp_all add: bind_err_def)
  show ?case
  proof (cases "k > best_key")
    case True
    with Cons.prems k have "max_loop key x k xs = Inr m" by (simp add: bind_err_def)
    from Cons.IH [OF this k] True k show ?thesis by auto
  next
    case False
    with Cons.prems k have "max_loop key best best_key xs = Inr m" by (simp add: bind_err_def)
    from Cons.IH [OF this Cons.prems(2)] False k show ?thesis by fastforce
  qed
qed

lemma py_max_greatest:
  assumes "py_max key xs = Inr m"
  shows "m \<in> set xs
         \<and> (\<exists>km. key m = Inr km \<and> (\<forall>x\<in>set xs. \<exists>k. key x = Inr k \<and> k \<le> km))"
proof (cases xs)
  case Nil
  with assms show ?thesis by (simp add: py_max_def)
next
  case (Cons x rest)
  with assms obtain k where k: "key x = Inr k" and m: "max_loop key x k rest = Inr m"
    by (cases "key x") (simp_all add: py_max_def bind_err_def)
  from max_loop_greatest [OF m k] Cons k show ?thesis by auto
qed

lemma split_on_three:
  assumes "CHR ''|'' \<notin> set a" "CHR ''|'' \<notin> set b" "CHR ''|'' \<notin> set c"
  shows "split_on CHR ''|'' (a @ CHR ''|'' # b @ CHR ''|'' # c) = [a, b, c]"
  using assms by (simp add: split_on_append split_on_no_sep)

lemma split_once_first:
  "sep \<notin> set a \<Longrightarrow> py_index (split_once sep (a @ sep # rest)) 0 = Inr a"
  by (auto simp: split_once_def py_index_def takeWhile_tail)

lemma py_in_refl: "py_in a a"
  by (cases a) simp_all

text \<open>
  Two jobs submitted under one name at times \<open>t1 < t2\<close>, in either order of the
  output: the one submitted at \<open>t2\<close> is chosen.
\<close>

lemma newest_of_two:
  assumes l1: "line1 = id1 @ ''|'' @ name @ ''|'' @ t1"
    and l2: "line2 = id2 @ ''|'' @ name @ ''|'' @ t2"
    and s1: "strip line1 = line1" and s2: "strip line2 = line2"
    and nobar: "CHR ''|'' \<notin> set id1 \<union> set id2 \<union> set name \<union> set t1 \<union> set t2"
    and nonl: "newline \<notin> set line1 \<union> set line2"
    and lt: "t1 < t2"
  shows "newest_job_id name 0 (line1 @ [newline] @ line2) = Inr (Some id2)"
    and "newest_job_id name 0 (line2 @ [newline] @ line1) = Inr (Some id2)"
proof -
  have sp: "split_on newline (line1 @ [newline] @ line2) = [line1, line2]"
     "split_on newline (line2 @ [newline] @ line1) = [line2, line1]"
    using nonl by (simp_all add: split_on_append split_on_no_sep)
  have f1: "split_on CHR ''|'' line1 = [id1, name, t1]"
    and f2: "split_on CHR ''|'' line2 = [id2, name, t2]"
    using nobar unfolding l1 l2 by (simp_all add: split_on_three)
  have i1: "py_index (split_once CHR ''|'' line2) 0 = Inr id2"
    using nobar unfolding l2 by (simp add: split_once_first)
  have nlt: "\<not> t2 < t1" using lt by simp
  show "newest_job_id name 0 (line1 @ [newline] @ line2) = Inr (Some id2)"
    unfolding newest_job_id_def sp Let_def
    by (simp add: s1 s2 f1 f2 i1 bind_err_def py_index_Cons py_index_Nil py_in_refl
          py_max_def submit_key_def lt)
  show "newest_job_id name 0 (line2 @ [newline] @ line1) = Inr (Some id2)"
    unfolding newest_job_id_def sp Let_def
    by (simp add: s1 s2 f1 f2 i1 bind_err_def py_index_Cons py_index_Nil py_in_refl
          py_max_def submit_key_def nlt)
qed

text \<open>An output with a job step between two jobs of the name, evaluated.\<close>

lemma newest_job_id_example:
  "newest_job_id ''7__8_9'' 0
     (''101|7__8_9|2024-05-01T10:00:00'' @ [newline]
      @ ''101.batch|batch|2024-05-01T10:00:05'' @ [newline]
      @ ''102|7__8_9|2024-05-01T11:30:00'')
   = Inr (Some ''102'')"
  by (simp add: newest_job_id_def newline_def bind_err_def py_index_def py_max_def
        submit_key_def strip_def is_space_def split_once_def)


section \<open>Requesting the stop\<close>

text \<open>
  Claim C8, as stated, fails. It says that \<open>mark_stop\<close> ignores the errors of the
  write, so that a failing write raises nothing to the caller. In a workspace that
  cannot be written, \<open>mark_stop\<close> raises OSError: there is no handler around the write.
\<close>

theorem mark_stop_failure_counterexample:
  "fst (mark_stop (idle_job (Some ''101'') ''/builds/7__8_9'')
          (quiet_world\<lparr>can_write := \<lambda>path. False\<rparr>)) = Inl OSError"
  by (simp add: mark_stop_def write_file_def tick_def quiet_world_def Let_def)

text \<open>
  Claim C8, amended. When the exit file can be written, \<open>mark_stop\<close> writes it with the
  stop message, and a second call succeeds again and leaves the file with the same
  content; when nobody else changed a file in between, the files after the second
  call are the files after the first. When the exit file cannot be written,
  \<open>mark_stop\<close> raises OSError to its caller and has no effect of its own.
\<close>

theorem mark_stop_effect:
  "(can_write w (exit_script_path self) \<and> \<not> is_dir w (exit_script_path self) \<longrightarrow>
      (\<exists>w1 w2. mark_stop self w = (Inr (), w1)
         \<and> files w1 (exit_script_path self) = Some stop_message
         \<and> mark_stop self w1 = (Inr (), w2)
         \<and> files w2 (exit_script_path self) = Some stop_message
         \<and> (remote w (now w1) (files w1) = files w1 \<longrightarrow> files w2 = files w1)))
   \<and> (\<not> (can_write w (exit_script_path self) \<and> \<not> is_dir w (exit_script_path self)) \<longrightarrow>
      (\<exists>w1. mark_stop self w = (Inl OSError, w1) \<and> trace w1 = trace w))"
  by (auto simp: mark_stop_def write_file_def tick_def Let_def emit_def logging_def
        stop_message_def)

theorem mark_stop_effect_witness:
  "(\<exists>w1 w2. mark_stop (idle_job (Some ''101'') ''/builds/7__8_9'') quiet_world = (Inr (), w1)
       \<and> files w1 ''/builds/7__8_9/batch.gitlab_ci_exit'' = Some stop_message
       \<and> mark_stop (idle_job (Some ''101'') ''/builds/7__8_9'') w1 = (Inr (), w2)
       \<and> files w2 = files w1)
   \<and> (\<exists>w1. mark_stop (idle_job (Some ''101'') ''/builds/7__8_9'')
               (quiet_world\<lparr>can_write := \<lambda>path. False\<rparr>) = (Inl OSError, w1)
          \<and> trace w1 = [])"
proof -
  let ?job = "idle_job (Some ''101'') ''/builds/7__8_9''"
  have p: "exit_script_path ?job = ''/builds/7__8_9/batch.gitlab_ci_exit''"
    by (simp add: exit_script_path_def path_join_def idle_job_def suffix_to_prefix)
  have a: "can_write quiet_world (exit_script_path ?job) \<and> \<not> is_dir quiet_world (exit_script_path ?job)"
    by (simp add: quiet_world_def)
  from a mark_stop_effect [of quiet_world ?job]
  obtain w1 w2 where 1: "mark_stop ?job quiet_world = (Inr (), w1)"
    and 2: "files w1 (exit_script_path ?job) = Some stop_message"
    and 3: "mark_stop ?job w1 = (Inr (), w2)"
    and 4: "remote quiet_world (now w1) (files w1) = files w1 \<longrightarrow> files w2 = files w1"
    by blast
  have "remote quiet_world (now w1) (files w1) = files w1" by (simp add: quiet_world_def)
  with 4 have 5: "files w2 = files w1" by simp
  let ?w = "quiet_world\<lparr>can_write := \<lambda>path. False\<rparr>"
  have b: "\<not> (can_write ?w (exit_script_path ?job) \<and> \<not> is_dir ?w (exit_script_path ?job))"
    by simp
  from b mark_stop_effect [of ?w ?job]
  obtain w3 where 6: "mark_stop ?job ?w = (Inl OSError, w3)" and 7: "trace w3 = trace ?w"
    by blast
  have 8: "trace ?w = []" by (simp add: quiet_world_def)
  from 1 2 3 5 6 7 8 show ?thesis unfolding p by auto
qed

section \<open>Dispatching a script whose source cannot be read\<close>



section \<open>Creating an allocation without a usable idle script\<close>

text \<open>
  Claim C7. If the idle script is no regular file, or is not executable, or is not
  readable (and the other side does not touch it meanwhile), \<open>create\<close> returns \<open>None\<close>
  and its only effect is one log record of level CRITICAL: no file is written and no
  command is launched, so nothing is submitted.
\<close>

theorem create_unusable_idle_script:
  assumes stable: "\<forall>n fs. remote w n fs idle = fs idle"
    and unusable: "files w idle = None \<or> \<not> can_exec w idle \<or> \<not> can_read w idle"
  shows "\<exists>message w'. create configuration wd batch_filename idle w = Some (Inr None, w')
           \<and> trace w' = trace w @ [Log CRITICAL message]"
  using unusable stable
  by (auto simp: create_def isfile_def access_x_def access_r_def Let_def logging_def
        emit_def tick_def)

theorem create_unusable_idle_script_witness:
  "\<exists>message w'.
     create example_request ''/builds/7__8_9'' ''config.sbatch''
         ''/opt/driver/idle_script.sh'' quiet_world
       = Some (Inr None, w')
     \<and> trace w' = [Log CRITICAL message]"
proof -
  have "\<forall>n fs. remote quiet_world n fs ''/opt/driver/idle_script.sh''
                 = fs ''/opt/driver/idle_script.sh''"
    by (simp add: quiet_world_def)
  moreover have "files quiet_world ''/opt/driver/idle_script.sh'' = None
      \<or> \<not> can_exec quiet_world ''/opt/driver/idle_script.sh''
      \<or> \<not> can_read quiet_world ''/opt/driver/idle_script.sh''"
    by (simp add: quiet_world_def)
  moreover have "trace quiet_world = []" by (simp add: quiet_world_def)
  ultimately show ?thesis
    using create_unusable_idle_script [of quiet_world "''/opt/driver/idle_script.sh''"
        example_request
        "''/builds/7__8_9''" "''config.sbatch''"]
    by simp
qed

section \<open>Stopping: the sentinel first, the cancellation last\<close>

text \<open>\<open>is_running\<close> launches one accounting query; its answer depends on the tick only.\<close>

lemma snd_is_running:
  "snd (is_running self w) = emit (Command (sacct_command (job_id self))) (tick w)"
  by (simp add: is_running_def get_state_def sacct_def system_def sacct_command_def Let_def
      split: prod.splits sum.splits option.splits)

lemma fst_is_running_cong:
  "process w' = process w \<Longrightarrow> now w' = now w \<Longrightarrow> fst (is_running self w') = fst (is_running self w)"
  by (simp add: is_running_def get_state_def sacct_def system_def Let_def
      split: prod.splits sum.splits option.splits)

lemma running_at_now: "(fst (is_running self w) = Inr True) = running_at self w (now w)"
  unfolding running_at_def by (simp add: fst_is_running_cong [of "w\<lparr>now := now w\<rparr>" w])

lemma running_at_cong: "process w' = process w \<Longrightarrow> running_at self w' n = running_at self w n"
  unfolding running_at_def
  by (rule arg_cong [where f = "\<lambda>x. x = Inr True"]) (simp add: fst_is_running_cong)

lemma not_running_eq:
  "not_running self w =
     (case fst (is_running self w) of Inl e \<Rightarrow> Inl e | Inr b \<Rightarrow> Inr (\<not> b),
      emit (Command (sacct_command (job_id self))) (tick w))"
  using snd_is_running [of self w]
  by (cases "is_running self w") (auto simp: not_running_def split: sum.splits)

lemma cancels_simps [simp]:
  "cancels self [] = 0"
  "cancels self (es @ es') = cancels self es + cancels self es'"
  "cancels self (Command (sacct_command jid) # es) = cancels self es"
  "cancels self (Sleep # es) = cancels self es"
  "cancels self (Write p c # es) = cancels self es"
  "cancels self (Log l m # es) = cancels self es"
  "cancels self (Command (''scancel '' @ str_opt (job_id self)) # es) = Suc (cancels self es)"
  by (simp_all add: cancels_def sacct_command_def)

lemma sleeps_simps [simp]:
  "sleeps [] = 0"
  "sleeps (es @ es') = sleeps es + sleeps es'"
  "sleeps (Command c # es) = sleeps es"
  "sleeps (Sleep # es) = Suc (sleeps es)"
  "sleeps (Write p c # es) = sleeps es"
  "sleeps (Log l m # es) = sleeps es"
  by (simp_all add: sleeps_def)



lemma stop_timeout_cong: "environ w' = environ w \<Longrightarrow> stop_timeout w' = stop_timeout w"
  by (auto simp: stop_timeout_def get_env_def split: option.splits)

lemma mark_stop_writable:
  assumes "can_write w (exit_script_path self)" "\<not> is_dir w (exit_script_path self)"
  shows "\<exists>w1 message. mark_stop self w = (Inr (), w1) \<and> process w1 = process w
           \<and> environ w1 = environ w \<and> now w1 = now w + 1
           \<and> trace w1 = trace w @ [Write (exit_script_path self) stop_message, Log DEBUG message]"
  using assms
  by (simp add: mark_stop_def write_file_def Let_def tick_def emit_def logging_def
        stop_message_def)










text \<open>
  The budget is a time-out that is not negative. The loop of \<open>wait_until\<close> counts down
  to 0 from where it starts: if the wait for a job that keeps running returns, the
  time-out was not negative, and with a negative one \<open>try_stop\<close> does not return.
\<close>

lemma wait_until_not_running_returned:
  assumes "wait_until c s t w = Some y"
  shows "c = not_running self \<longrightarrow> s = sleep \<longrightarrow> (\<forall>n. running_at self w n) \<longrightarrow> 0 \<le> t"
proof (rule wait_until.raw_induct
    [where P = "\<lambda>c s t w y. c = not_running self \<longrightarrow> s = sleep
                  \<longrightarrow> (\<forall>n. running_at self w n) \<longrightarrow> 0 \<le> t",
     OF _ assms], intro impI)
  fix wait_until :: "(world \<Rightarrow> (error + bool) \<times> world) \<Rightarrow> (world \<Rightarrow> world) \<Rightarrow> int \<Rightarrow> world
                       \<Rightarrow> ((error + bool) \<times> world) option"
    and c s t w y
  assume IH: "\<And>c s t w y. wait_until c s t w = Some y \<Longrightarrow>
                 c = not_running self \<longrightarrow> s = sleep \<longrightarrow> (\<forall>n. running_at self w n) \<longrightarrow> 0 \<le> t"
    and body: "(if t \<noteq> 0
      then case c w of (Inl e, w1) \<Rightarrow> Some (Inl e, w1)
           | (Inr holds, w1) \<Rightarrow>
               if holds then Some (Inr True, w1)
               else wait_until c s (t - 1) (s w1)
      else Some (Inr False, w)) = Some y"
    and c: "c = not_running self" and s: "s = sleep" and run: "\<forall>n. running_at self w n"
  show "0 \<le> t"
  proof (cases "t = 0")
    case True then show ?thesis by simp
  next
    case False
    let ?w1 = "emit (Command (sacct_command (job_id self))) (tick w)"
    have "fst (is_running self w) = Inr True"
      using run by (simp add: running_at_now)
    then have r: "not_running self w = (Inr False, ?w1)"
      by (simp add: not_running_eq)
    have "wait_until c s (t - 1) (sleep ?w1) = Some y"
      using body False r unfolding c s by simp
    moreover have "\<forall>n. running_at self (sleep ?w1) n"
      using run running_at_cong [of "sleep ?w1" w self]
      by (simp add: sleep_def emit_def tick_def)
    ultimately have "0 \<le> t - 1" using IH c s by blast
    then show ?thesis by simp
  qed
qed

lemma try_stop_negative_timeout:
  assumes writable: "can_write w (exit_script_path self)" "\<not> is_dir w (exit_script_path self)"
    and timeout: "stop_timeout w = Inr t" "t < 0"
    and run: "\<forall>n. running_at self w n"
  shows "try_stop self w = None"
proof -
  from mark_stop_writable [OF writable] obtain w1 message where
    m: "mark_stop self w = (Inr (), w1)" and p1: "process w1 = process w"
    and e1: "environ w1 = environ w"
    by blast
  have to: "stop_timeout w1 = Inr t" using timeout stop_timeout_cong [OF e1] by simp
  have r1: "\<forall>n. running_at self w1 n" using run running_at_cong [OF p1] by simp
  have "wait_until (not_running self) sleep t w1 = None"
  proof (cases "wait_until (not_running self) sleep t w1")
    case None then show ?thesis .
  next
    case (Some y)
    from wait_until_not_running_returned [OF Some, of self] r1 timeout(2) show ?thesis by simp
  qed
  then show ?thesis by (simp add: try_stop_def try_stop_body_def m to)
qed

section \<open>Forwarding the log\<close>














lemma snd_read_from: "snd (read_from x s w) = tick w"
  by (simp add: read_from_def Let_def split: option.splits)










text \<open>The loop ends once the job is no longer reported as running.\<close>

lemma later_refl: "later w w" by (simp add: later_def)
lemma later_trans: "later w w1 \<Longrightarrow> later w1 w2 \<Longrightarrow> later w w2" by (simp add: later_def)
lemma later_tick: "later w (tick w)" by (simp add: later_def tick_def)
lemma later_emit: "later w (emit e w)" by (simp add: later_def emit_def)
lemma later_tick_emit: "later w (emit e (tick w))" by (simp add: later_def emit_def tick_def)

lemma later_is_running: "later w (snd (is_running job w))"
  unfolding snd_is_running by (rule later_tick_emit)

lemma now_is_running: "now (snd (is_running job w)) = Suc (now w)"
  unfolding snd_is_running by (simp add: emit_def tick_def)

lemma later_update_file_timestamp: "later w (update_file_timestamp x w)"
  by (simp add: update_file_timestamp_def path_exists_def isfile_def popen_def Let_def
        later_def tick_def emit_def)

lemma later_is_phase_executed: "later w (snd (is_phase_executed job x w))"
proof -
  let ?w0 = "flush_system_io x w"
  have 0: "later w ?w0" by (simp add: flush_system_io_def popen_def later_tick_emit)
  obtain r w1 where 1: "is_running job ?w0 = (r, w1)" by (cases "is_running job ?w0")
  have l1: "later ?w0 w1" using later_is_running [of ?w0 job] 1 by simp
  obtain is_file w2 where 2: "isfile x w1 = (is_file, w2)" by (cases "isfile x w1")
  have l2: "later w1 w2" using 2 by (auto simp: isfile_def Let_def later_tick)
  show ?thesis
    using later_trans [OF 0 l1] later_trans [OF later_trans [OF 0 l1] l2]
    by (cases r) (simp_all add: is_phase_executed_def 1 2)
qed

lemma later_wait_until:
  assumes cond: "\<And>w. later w (snd (condition w))"
  shows "wait_until condition sleep (int k) w = Some (r, w') \<Longrightarrow> later w w'"
proof (induction k arbitrary: w)
  case 0
  then show ?case by (subst (asm) wait_until.simps) (simp add: later_refl)
next
  case (Suc k)
  obtain r1 w1 where c: "condition w = (r1, w1)" by (cases "condition w")
  have l1: "later w w1" using cond [of w] c by simp
  have l2: "later w1 (sleep w1)" by (simp add: sleep_def later_tick_emit)
  show ?case
  proof (cases r1)
    case (Inl e)
    with Suc.prems c l1 show ?thesis by (subst (asm) wait_until.simps) auto
  next
    case (Inr holds)
    show ?thesis
    proof (cases holds)
      case True
      with Inr Suc.prems c l1 show ?thesis by (subst (asm) wait_until.simps) auto
    next
      case False
      with Inr Suc.prems c have "wait_until condition sleep (int k) (sleep w1) = Some (r, w')"
        by (subst (asm) wait_until.simps) auto
      from Suc.IH [OF this] l1 l2 show ?thesis by (blast intro: later_trans)
    qed
  qed
qed

lemma run_loop_returns:
  assumes stop: "\<forall>n\<ge>N. \<not> running_at job w0 n"
  shows "process w = process w0 \<Longrightarrow> \<exists>y. run_loop job ex p rb ts w = Some y"
proof (induction "N - now w" arbitrary: w rb ts rule: less_induct)
  case less
  note pw = less.prems
  obtain r1 w1 where wu: "wait_until (is_phase_executed job ex) sleep (int 10) w = Some (r1, w1)"
    using wait_until_returns [of "is_phase_executed job ex" sleep 10 w] by auto
  have l1: "later w w1" by (rule later_wait_until [OF later_is_phase_executed wu])
  show ?case
  proof (cases r1)
    case (Inl e)
    with wu show ?thesis by (subst run_loop.simps) simp
  next
    case (Inr executed)
    show ?thesis
    proof (cases executed)
      case True
      with Inr wu show ?thesis by (subst run_loop.simps) simp
    next
      case not_executed: False
      obtain r2 w2 where ir: "is_running job w1 = (r2, w2)" by (cases "is_running job w1")
      have l2: "later w1 w2" and n2: "now w2 = Suc (now w1)"
        using later_is_running [of w1 job] now_is_running [of job w1] ir by simp_all
      show ?thesis
      proof (cases r2)
        case (Inl e)
        with not_executed Inr wu ir show ?thesis by (subst run_loop.simps) simp
      next
        case running: (Inr running)
        show ?thesis
        proof (cases running)
          case False
          with running not_executed Inr wu ir show ?thesis by (subst run_loop.simps) simp
        next
          case is_running: True
          have "running_at job w0 (now w1)"
            using is_running running ir running_at_now [of job w1] running_at_cong [of w1 w0 job]
              l1 pw by (simp add: later_def)
          with stop have small: "now w1 < N" by (meson not_le)
          let ?w2' = "update_file_timestamp ex w2"
          have l2': "later w2 ?w2'" by (rule later_update_file_timestamp)
          obtain r3 w3 where gm: "getmtime p ?w2' = (r3, w3)" by (cases "getmtime p ?w2'")
          have w3: "w3 = tick ?w2'" using gm by (auto simp: getmtime_def Let_def split: if_splits)
          have l3: "later w w3"
            unfolding w3 using l1 l2 l2' later_tick [of ?w2'] by (blast intro: later_trans)
          have n3: "now w1 < now w3"
            unfolding w3 using n2 l2' by (simp add: later_def tick_def)
          show ?thesis
          proof (cases r3)
            case (Inl e)
            with is_running running not_executed Inr wu ir gm show ?thesis
              by (subst run_loop.simps) simp
          next
            case stamp: (Inr last_edit)
            show ?thesis
            proof (cases "last_edit \<noteq> ts")
              case unchanged: False
              have "N - now w3 < N - now w" using small n3 l1 by (auto simp: later_def)
              moreover have "process w3 = process w0" using l3 pw by (simp add: later_def)
              ultimately obtain y where "run_loop job ex p rb ts w3 = Some y"
                using less.hyps [of w3 rb ts] by blast
              with unchanged stamp is_running running not_executed Inr wu ir gm show ?thesis
                by (subst run_loop.simps) simp
            next
              case changed: True
              obtain r4 w4 where rd: "read_from p rb w3 = (r4, w4)" by (cases "read_from p rb w3")
              have w4: "w4 = tick w3" using rd snd_read_from [of p rb w3] by simp
              show ?thesis
              proof (cases r4)
                case (Inl e)
                with changed stamp is_running running not_executed Inr wu ir gm rd show ?thesis
                  by (subst run_loop.simps) simp
              next
                case content: (Inr tp)
                obtain chunk position where tp: "tp = (chunk, position)" by (cases tp)
                let ?w5 = "print_stderr chunk w4"
                have "N - now ?w5 < N - now w"
                  unfolding w4 using small n3 l1
                  by (auto simp: later_def print_stderr_def emit_def tick_def)
                moreover have "process ?w5 = process w0"
                  unfolding w4 using l3 pw
                  by (simp add: later_def print_stderr_def emit_def tick_def)
                ultimately obtain y where "run_loop job ex p position last_edit ?w5 = Some y"
                  using less.hyps [of ?w5 position last_edit] by blast
                with content tp changed stamp is_running running not_executed Inr wu ir gm rd
                show ?thesis by (subst run_loop.simps) simp
              qed
            qed
          qed
        qed
      qed
    qed
  qed
qed

lemma run_forward_log_returns:
  assumes "\<forall>n\<ge>N. \<not> running_at job w n"
  shows "\<exists>y. run_forward_log job ex p w = Some y"
proof -
  from run_loop_returns [OF assms, of w ex p 0 0] obtain r1 w1 where
    loop: "run_loop job ex p 0 0 w = Some (r1, w1)" by auto
  show ?thesis
  proof (cases r1)
    case (Inl e)
    with loop show ?thesis by (simp add: run_forward_log_def)
  next
    case (Inr rb)
    obtain r2 w2 where rd: "read_from p rb w1 = (r2, w2)" by (cases "read_from p rb w1")
    show ?thesis
    proof (cases r2)
      case (Inl e)
      with Inr loop rd show ?thesis by (simp add: run_forward_log_def)
    next
      case content: (Inr tp)
      with Inr loop rd show ?thesis by (cases tp) (simp add: run_forward_log_def)
    qed
  qed
qed






end
